theory Spec2Isabelle
  imports Complex_Main "HOL-Library.Log_Nat"
begin

section \<open>JavaScript values\<close>

text \<open>
  The dashboard is JavaScript (React): every prop and every piece of state is a dynamically
  typed value. The values that reach the components come from \<^verbatim>\<open>res.json()\<close>, so they
  are JSON values, or \<^verbatim>\<open>undefined\<close> where a field is missing.

  \<^item> A number is an IEEE 754 binary64 value: \<open>Fin q\<close> is the finite double whose exact value
    is the rational \<open>q\<close> (the two zeros are identified: the program never divides by one and
    never inspects its sign).
  \<^item> A string is its UTF-8 byte sequence (\<^typ>\<open>string\<close>); the literals of the source that
    are not ASCII are written out in bytes below.
  \<^item> \<open>JObj\<close> is a plain object: its own properties, each key once, with the prototype
    \<^verbatim>\<open>Object.prototype\<close>.
  \<^item> \<open>JNative f\<close> is the built-in function that is the value of the property \<open>f\<close>
    (\<^verbatim>\<open>Object.prototype.__proto__\<close> is the object \<^verbatim>\<open>Object.prototype\<close>); no JSON value is
    one, but a property read that reaches \<^verbatim>\<open>Object.prototype\<close> returns one.
\<close>

datatype jsnum = Fin rat | NaN | PosInf | NegInf

datatype jsval =
    JUndefined
  | JNull
  | JBool bool
  | JNum jsnum
  | JStr string
  | JArr "jsval list"
  | JObj "(string \<times> jsval) list"
  | JNative string

text \<open>
  What the program can throw while rendering: a \<^verbatim>\<open>TypeError\<close> of the language (a property
  read on \<^verbatim>\<open>undefined\<close> or \<^verbatim>\<open>null\<close>, a call of something that is not a function, an
  object with no primitive value), and React's error for an object used as a child.
\<close>

datatype error = TypeError | InvalidChild

definition bind :: "error + 'a \<Rightarrow> ('a \<Rightarrow> error + 'b) \<Rightarrow> error + 'b" where
  "bind m f = (case m of Inl e \<Rightarrow> Inl e | Inr x \<Rightarrow> f x)"

subsection \<open>Truthiness, \<^verbatim>\<open>||\<close>, \<^verbatim>\<open>&&\<close>, \<^verbatim>\<open>===\<close>\<close>

fun truthy :: "jsval \<Rightarrow> bool" where
  "truthy JUndefined = False"
| "truthy JNull = False"
| "truthy (JBool b) = b"
| "truthy (JNum (Fin q)) = (q \<noteq> 0)"
| "truthy (JNum NaN) = False"
| "truthy (JNum PosInf) = True"
| "truthy (JNum NegInf) = True"
| "truthy (JStr s) = (s \<noteq> [])"
| "truthy (JArr xs) = True"
| "truthy (JObj kvs) = True"
| "truthy (JNative f) = True"

definition js_or :: "jsval \<Rightarrow> jsval \<Rightarrow> jsval" where
  "js_or a b = (if truthy a then a else b)"

definition js_and :: "jsval \<Rightarrow> jsval \<Rightarrow> jsval" where
  "js_and a b = (if truthy a then b else a)"

text \<open>
  Strict equality. The model has no object identity; the source only ever compares with a
  primitive literal (\<^verbatim>\<open>'improving'\<close>, \<^verbatim>\<open>'Reliable'\<close>, \<^verbatim>\<open>0\<close>), and an object, an array or a
  function is never equal to a primitive.
\<close>

fun primitive :: "jsval \<Rightarrow> bool" where
  "primitive (JArr xs) = False"
| "primitive (JObj kvs) = False"
| "primitive (JNative f) = False"
| "primitive v = True"

definition strict_eq :: "jsval \<Rightarrow> jsval \<Rightarrow> bool" where
  "strict_eq a b = (primitive a \<and> a \<noteq> JNum NaN \<and> a = b)"

subsection \<open>Conversion to string\<close>

function show_nat :: "nat \<Rightarrow> string" where
  "show_nat n =
     (if n < 10 then [''0123456789'' ! n]
      else show_nat (n div 10) @ [''0123456789'' ! (n mod 10)])"
  by pat_completeness auto
termination
  by (relation "measure id") auto

declare show_nat.simps [simp del]

text \<open>
  \<^verbatim>\<open>Number::toString\<close>. For an integer of magnitude below \<open>2^53\<close> the shortest digit string
  that reads back as the same double is its decimal numeral. For the other finite numbers the
  standard asks for a shortest round-trip digit string and an exponent format; that part of the
  platform is left unspecified here (\<open>shortest_digits\<close>), and nothing below depends on it.
\<close>

definition shortest_digits :: "rat \<Rightarrow> string" where
  "shortest_digits = undefined"

definition is_integer :: "rat \<Rightarrow> bool" where
  "is_integer q = (of_int \<lfloor>q\<rfloor> = q)"

fun number_to_string :: "jsnum \<Rightarrow> string" where
  "number_to_string NaN = ''NaN''"
| "number_to_string PosInf = ''Infinity''"
| "number_to_string NegInf = ''-Infinity''"
| "number_to_string (Fin q) =
     (if is_integer q \<and> \<bar>q\<bar> < 2 ^ 53
      then (if q < 0 then ''-'' else '''') @ show_nat (nat \<bar>\<lfloor>q\<rfloor>\<bar>)
      else shortest_digits q)"

text \<open>The source text of a built-in function is implementation-defined.\<close>

definition native_text :: "string \<Rightarrow> string" where
  "native_text = undefined"

text \<open>
  \<^verbatim>\<open>ToString\<close>, as a template literal and a computed property key apply it. An array is
  joined with commas (\<^verbatim>\<open>undefined\<close> and \<^verbatim>\<open>null\<close> elements give the empty string). A plain
  object gives \<^verbatim>\<open>[object Object]\<close> through the inherited \<^verbatim>\<open>toString\<close>; an own property
  \<^verbatim>\<open>toString\<close> of a JSON object is not callable, \<^verbatim>\<open>valueOf\<close> returns the object itself, and
  the conversion throws a \<^verbatim>\<open>TypeError\<close>.
\<close>

fun to_string :: "jsval \<Rightarrow> error + string"
  and join_strings :: "jsval list \<Rightarrow> error + string" where
  "to_string JUndefined = Inr ''undefined''"
| "to_string JNull = Inr ''null''"
| "to_string (JBool b) = Inr (if b then ''true'' else ''false'')"
| "to_string (JNum n) = Inr (number_to_string n)"
| "to_string (JStr s) = Inr s"
| "to_string (JArr xs) = join_strings xs"
| "to_string (JObj kvs) =
     (if ''toString'' \<in> fst ` set kvs then Inl TypeError else Inr ''[object Object]'')"
| "to_string (JNative f) = Inr (native_text f)"
| "join_strings [] = Inr []"
| "join_strings (x # xs) =
     (case (if x = JUndefined \<or> x = JNull then Inr [] else to_string x) of
        Inl e \<Rightarrow> Inl e
      | Inr s \<Rightarrow>
          (if xs = [] then Inr s
           else (case join_strings xs of Inl e \<Rightarrow> Inl e | Inr t \<Rightarrow> Inr (s @ '','' @ t))))"

subsection \<open>Numbers\<close>

text \<open>
  Rounding a rational to the nearest binary64 value, ties to even: the quantum of a value in
  the binade \<open>[2^e, 2^(e+1))\<close> is \<open>2^(e - 52)\<close> (with \<open>e\<close> no smaller than \<open>-1022\<close>, the
  subnormal range), and a result of magnitude \<open>2^1024\<close> or more is an infinity.
\<close>

definition binade :: "rat \<Rightarrow> int" where
  "binade x =
     (let (p, q) = quotient_of x; e = bitlen p - bitlen q
      in if 2 powi e \<le> x then e else e - 1)"

definition round_even :: "rat \<Rightarrow> int" where
  "round_even r =
     (let f = \<lfloor>r\<rfloor>; d = r - of_int f
      in if d < 1 / 2 then f else if 1 / 2 < d then f + 1 else if even f then f else f + 1)"

definition quantum :: "rat \<Rightarrow> rat" where
  "quantum x = 2 powi (max (binade x) (- 1022) - 52)"

definition nearest :: "rat \<Rightarrow> rat" where
  "nearest x = of_int (round_even (x / quantum x)) * quantum x"

definition round_double :: "rat \<Rightarrow> jsnum" where
  "round_double x =
     (if x = 0 then Fin 0
      else if 0 < x then (if nearest x < 2 ^ 1024 then Fin (nearest x) else PosInf)
      else (if nearest (- x) < 2 ^ 1024 then Fin (- nearest (- x)) else NegInf))"

text \<open>The product of two numbers (\<^verbatim>\<open>*\<close>), and \<^verbatim>\<open>Math.round\<close> (ties towards \<open>+\<infinity>\<close>).\<close>

fun num_sign :: "jsnum \<Rightarrow> int" where
  "num_sign (Fin q) = (if q < 0 then - 1 else if q = 0 then 0 else 1)"
| "num_sign NaN = 0"
| "num_sign PosInf = 1"
| "num_sign NegInf = - 1"

fun num_mul :: "jsnum \<Rightarrow> jsnum \<Rightarrow> jsnum" where
  "num_mul (Fin a) (Fin b) = round_double (a * b)"
| "num_mul x y =
     (let s = num_sign x * num_sign y
      in if x = NaN \<or> y = NaN \<or> s = 0 then NaN else if 0 < s then PosInf else NegInf)"

fun math_round :: "jsnum \<Rightarrow> jsnum" where
  "math_round (Fin q) = Fin (of_int \<lfloor>q + 1 / 2\<rfloor>)"
| "math_round n = n"

text \<open>
  \<^verbatim>\<open>ToNumber\<close>. The grammar of numeric strings (\<open>string_to_number\<close>) is not modelled. An
  array or an object is converted through its string.
\<close>

definition string_to_number :: "string \<Rightarrow> jsnum" where
  "string_to_number = undefined"

fun to_number :: "jsval \<Rightarrow> error + jsnum" where
  "to_number JUndefined = Inr NaN"
| "to_number JNull = Inr (Fin 0)"
| "to_number (JBool b) = Inr (Fin (if b then 1 else 0))"
| "to_number (JNum n) = Inr n"
| "to_number (JStr s) = Inr (string_to_number s)"
| "to_number v = bind (to_string v) (\<lambda>s. Inr (string_to_number s))"

text \<open>
  \<^verbatim>\<open>Number.prototype.toFixed(2)\<close>: the integer \<open>n\<close> for which \<open>n / 100\<close> is closest to the
  magnitude of the number (the larger one on a tie), written with a point before its last two
  digits; numbers of magnitude \<open>10^21\<close> or more, and those that are not finite, are written by
  \<^verbatim>\<open>Number::toString\<close>.
\<close>

fun toFixed2 :: "jsnum \<Rightarrow> string" where
  "toFixed2 (Fin q) =
     (if 10 ^ 21 \<le> \<bar>q\<bar> then number_to_string (Fin q)
      else
        (let digits = show_nat (nat \<lfloor>\<bar>q\<bar> * 100 + 1 / 2\<rfloor>);
             m = replicate (3 - length digits) CHR ''0'' @ digits
         in (if q < 0 then ''-'' else [])
            @ take (length m - 2) m @ ''.'' @ drop (length m - 2) m))"
| "toFixed2 n = number_to_string n"

subsection \<open>Strings\<close>

text \<open>
  \<^verbatim>\<open>String.prototype.toLowerCase\<close>: on an ASCII string the letters \<^verbatim>\<open>A\<close> to \<^verbatim>\<open>Z\<close> move to
  \<^verbatim>\<open>a\<close> to \<^verbatim>\<open>z\<close>; the Unicode case mapping of other strings (\<open>unicode_lower\<close>) is not
  modelled.
\<close>

definition unicode_lower :: "string \<Rightarrow> string" where
  "unicode_lower = undefined"

definition ascii_lower :: "char \<Rightarrow> char" where
  "ascii_lower c =
     (let n = of_char c :: nat in if 65 \<le> n \<and> n \<le> 90 then char_of (n + 32) else c)"

definition toLowerCase :: "string \<Rightarrow> string" where
  "toLowerCase s =
     (if list_all (\<lambda>c. (of_char c :: nat) < 128) s then map ascii_lower s else unicode_lower s)"

text \<open>
  \<^verbatim>\<open>String.prototype.replace\<close> with a string pattern and a replacement text without \<^verbatim>\<open>$\<close>:
  the first occurrence of the pattern is replaced, the rest of the string is kept.
\<close>

fun replace :: "string \<Rightarrow> string \<Rightarrow> string \<Rightarrow> string" where
  "replace [] pat rep = (if pat = [] then rep else [])"
| "replace (c # cs) pat rep =
     (if take (length pat) (c # cs) = pat then rep @ drop (length pat) (c # cs)
      else c # replace cs pat rep)"

text \<open>
  The \<^verbatim>\<open>length\<close> of a string counts UTF-16 code units: one for each UTF-8 sequence, two for a
  sequence of four bytes.
\<close>

definition utf16_length :: "string \<Rightarrow> nat" where
  "utf16_length s =
     length (filter (\<lambda>c. (of_char c :: nat) < 128 \<or> 192 \<le> (of_char c :: nat)) s)
     + length (filter (\<lambda>c. 240 \<le> (of_char c :: nat)) s)"

subsection \<open>Property reads and method calls\<close>

text \<open>
  \<open>field v f\<close> is the read \<^verbatim>\<open>v.f\<close> for the names the source reads from data
  (\<^verbatim>\<open>overall_risk\<close>, \<^verbatim>\<open>trend\<close>, \<^verbatim>\<open>className\<close>, \<^verbatim>\<open>text\<close>, ..., and \<^verbatim>\<open>length\<close>). Apart
  from the \<^verbatim>\<open>length\<close> of an array and of a string, none of them is a property of a built-in
  object, so only an own property of a plain object can answer; on \<^verbatim>\<open>undefined\<close> and
  \<^verbatim>\<open>null\<close> the read throws. (On a built-in object the source reads \<^verbatim>\<open>className\<close> and
  \<^verbatim>\<open>text\<close> only.)
\<close>

fun field :: "jsval \<Rightarrow> string \<Rightarrow> error + jsval" where
  "field JUndefined f = Inl TypeError"
| "field JNull f = Inl TypeError"
| "field (JObj kvs) f = Inr (case map_of kvs f of Some v \<Rightarrow> v | None \<Rightarrow> JUndefined)"
| "field (JArr xs) f =
     Inr (if f = ''length'' then JNum (Fin (of_nat (length xs))) else JUndefined)"
| "field (JStr s) f =
     Inr (if f = ''length'' then JNum (Fin (of_nat (utf16_length s))) else JUndefined)"
| "field v f = Inr JUndefined"

text \<open>
  The method calls of the source. A method of \<^verbatim>\<open>String.prototype\<close>, \<^verbatim>\<open>Number.prototype\<close> or
  \<^verbatim>\<open>Array.prototype\<close> exists on a string, a number or an array only; on any other value the
  property is \<^verbatim>\<open>undefined\<close> or a JSON value, and calling it throws a \<^verbatim>\<open>TypeError\<close>.
\<close>

fun call_toLowerCase :: "jsval \<Rightarrow> error + string" where
  "call_toLowerCase (JStr s) = Inr (toLowerCase s)"
| "call_toLowerCase v = Inl TypeError"

fun call_replace :: "jsval \<Rightarrow> string \<Rightarrow> string \<Rightarrow> error + string" where
  "call_replace (JStr s) pat rep = Inr (replace s pat rep)"
| "call_replace v pat rep = Inl TypeError"

fun call_toFixed2 :: "jsval \<Rightarrow> error + string" where
  "call_toFixed2 (JNum n) = Inr (toFixed2 n)"
| "call_toFixed2 v = Inl TypeError"

text \<open>\<^verbatim>\<open>xs.map((x, index) => ...)\<close>: the callback runs on the elements in order.\<close>

fun map_from :: "nat \<Rightarrow> (jsval \<Rightarrow> nat \<Rightarrow> error + 'a) \<Rightarrow> jsval list \<Rightarrow> error + 'a list" where
  "map_from i f [] = Inr []"
| "map_from i f (x # xs) =
     (case f x i of
        Inl e \<Rightarrow> Inl e
      | Inr y \<Rightarrow> (case map_from (Suc i) f xs of Inl e \<Rightarrow> Inl e | Inr ys \<Rightarrow> Inr (y # ys)))"

fun call_map :: "jsval \<Rightarrow> (jsval \<Rightarrow> nat \<Rightarrow> error + 'a) \<Rightarrow> error + 'a list" where
  "call_map (JArr xs) f = map_from 0 f xs"
| "call_map v f = Inl TypeError"

text \<open>
  The properties every plain object inherits from \<^verbatim>\<open>Object.prototype\<close>. Each is a function,
  except \<^verbatim>\<open>__proto__\<close>, an accessor that returns \<^verbatim>\<open>Object.prototype\<close> itself.
\<close>

definition object_prototype :: "string list" where
  "object_prototype =
     [''constructor'', ''__defineGetter__'', ''__defineSetter__'', ''hasOwnProperty'',
      ''__lookupGetter__'', ''__lookupSetter__'', ''isPrototypeOf'', ''propertyIsEnumerable'',
      ''toString'', ''valueOf'', ''__proto__'', ''toLocaleString'']"

text \<open>
  \<open>lookup obj key\<close> is the computed read \<^verbatim>\<open>obj[key]\<close> on an object literal: an own property
  first, then the prototype chain, then \<^verbatim>\<open>undefined\<close>.
\<close>

definition lookup :: "(string \<times> jsval) list \<Rightarrow> string \<Rightarrow> jsval" where
  "lookup obj key =
     (case map_of obj key of
        Some v \<Rightarrow> v
      | None \<Rightarrow>
          if key \<in> set object_prototype then JNative (''Object.prototype.'' @ key)
          else JUndefined)"

section \<open>The rendered tree\<close>

text \<open>
  A component returns a React element. \<open>Tag t props children\<close> is a host element
  (\<^verbatim>\<open><div className=...>\<close>) with its props other than event handlers; \<open>Expr v\<close> is a child
  that is a JavaScript value (JSX text is the string value); \<open>Items\<close> is an array of children
  (the result of \<^verbatim>\<open>map\<close>) or a fragment; \<open>Keyed k n\<close> is what a component element with
  \<^verbatim>\<open>key={k}\<close> rendered.
\<close>

datatype vnode =
    Tag string "(string \<times> jsval) list" "vnode list"
  | Expr jsval
  | Items "vnode list"
  | Keyed jsval vnode

text \<open>
  The text React puts in the document for a child value: nothing for \<^verbatim>\<open>undefined\<close>,
  \<^verbatim>\<open>null\<close>, booleans and functions, the string itself, the digits of a number, the children
  of an array in order; an object that is not an element is refused with an error.
\<close>

fun child_text :: "jsval \<Rightarrow> error + string"
  and children_text :: "jsval list \<Rightarrow> error + string" where
  "child_text JUndefined = Inr []"
| "child_text JNull = Inr []"
| "child_text (JBool b) = Inr []"
| "child_text (JNum n) = Inr (number_to_string n)"
| "child_text (JStr s) = Inr s"
| "child_text (JArr xs) = children_text xs"
| "child_text (JObj kvs) = Inl InvalidChild"
| "child_text (JNative f) =
     (if f = ''Object.prototype.__proto__'' then Inl InvalidChild else Inr [])"
| "children_text [] = Inr []"
| "children_text (x # xs) =
     (case child_text x of
        Inl e \<Rightarrow> Inl e
      | Inr s \<Rightarrow> (case children_text xs of Inl e \<Rightarrow> Inl e | Inr t \<Rightarrow> Inr (s @ t)))"

fun dom_text :: "vnode \<Rightarrow> error + string"
  and dom_texts :: "vnode list \<Rightarrow> error + string" where
  "dom_text (Tag t props cs) = dom_texts cs"
| "dom_text (Expr v) = child_text v"
| "dom_text (Items cs) = dom_texts cs"
| "dom_text (Keyed k n) = dom_text n"
| "dom_texts [] = Inr []"
| "dom_texts (c # cs) =
     (case dom_text c of
        Inl e \<Rightarrow> Inl e
      | Inr s \<Rightarrow> (case dom_texts cs of Inl e \<Rightarrow> Inl e | Inr t \<Rightarrow> Inr (s @ t)))"

section \<open>ActionBanner (ActionBanner.jsx)\<close>

text \<open>
  Lines 15 to 39 of the file. The three texts of the table start with U+1F6A8, with U+1F441
  U+FE0F and with U+2713. \<^verbatim>\<open>actionConfig[action]\<close> converts the action to a property key
  and reads it from the object literal.
\<close>

definition actionConfig :: "(string \<times> jsval) list" where
  "actionConfig =
     [(''flag'', JObj
         [(''className'', JStr ''action-flag''),
          (''text'', JStr ([CHR 0xF0, CHR 0x9F, CHR 0x9A, CHR 0xA8]
                           @ '' ACTION REQUIRED: Flag this listing for review''))]),
      (''monitor'', JObj
         [(''className'', JStr ''action-monitor''),
          (''text'', JStr ([CHR 0xF0, CHR 0x9F, CHR 0x91, CHR 0x81, CHR 0xEF, CHR 0xB8, CHR 0x8F]
                           @ '' Keep monitoring this listing''))]),
      (''ignore'', JObj
         [(''className'', JStr ''action-ignore''),
          (''text'', JStr ([CHR 0xE2, CHR 0x9C, CHR 0x93] @ '' No action needed''))])]"

definition ActionBanner :: "jsval \<Rightarrow> error + vnode" where
  "ActionBanner action =
     bind (to_string action) (\<lambda>key.
       let config = js_or (lookup actionConfig key) (lookup actionConfig ''ignore'') in
       bind (field config ''className'') (\<lambda>className.
       bind (to_string className) (\<lambda>cls.
       bind (field config ''text'') (\<lambda>text.
         Inr (Tag ''div'' [(''className'', JStr (''action-banner '' @ cls))] [Expr text])))))"

text \<open>The presentation of one key of the table: its class and its text.\<close>

definition presentation :: "string \<Rightarrow> string \<Rightarrow> vnode" where
  "presentation cls txt =
     Tag ''div'' [(''className'', JStr (''action-banner '' @ cls))] [Expr (JStr txt)]"

definition ignore_presentation :: vnode where
  "ignore_presentation =
     presentation ''action-ignore'' ([CHR 0xE2, CHR 0x9C, CHR 0x93] @ '' No action needed'')"

section \<open>RiskDrivers (RiskDrivers.jsx)\<close>

text \<open>
  The component stands in the file ActionBanner.jsx after ActionBanner, at lines 56 to 72.
  The heading starts with U+26A0 U+FE0F, the message with U+2713.
\<close>

definition no_drivers_message :: string where
  "no_drivers_message =
     [CHR 0xE2, CHR 0x9C, CHR 0x93] @ '' No significant risk factors detected''"

definition RiskDrivers :: "jsval \<Rightarrow> error + vnode" where
  "RiskDrivers drivers =
     (let heading =
        Tag ''h2'' []
          [Expr (JStr ([CHR 0xE2, CHR 0x9A, CHR 0xA0, CHR 0xEF, CHR 0xB8, CHR 0x8F]
                       @ '' Risk Drivers''))]
      in
      bind (field drivers ''length'') (\<lambda>len.
        if strict_eq len (JNum (Fin 0)) then
          Inr (Tag ''div'' [(''className'', JStr ''risk-drivers'')]
                 [heading,
                  Tag ''p'' [(''className'', JStr ''no-drivers'')]
                    [Expr (JStr no_drivers_message)]])
        else
          bind (call_map drivers
                  (\<lambda>driver index.
                     Inr (Tag ''li'' [(''key'', JNum (Fin (of_nat index)))] [Expr driver])))
            (\<lambda>items.
               Inr (Tag ''div'' [(''className'', JStr ''risk-drivers'')]
                      [heading, Tag ''ul'' [] [Items items]]))))"

section \<open>AspectsGrid (AspectsGrid.jsx)\<close>

text \<open>
  AspectCard is lines 13 to 46, AspectsGrid lines 48 to 56. The two glyphs are U+2191 and
  U+2193, each followed by a space. The template literal of \<^verbatim>\<open>trendClass\<close> is evaluated
  first, then the expressions of the JSX in the order they are written.
\<close>

definition up_glyph :: string where
  "up_glyph = [CHR 0xE2, CHR 0x86, CHR 0x91] @ '' ''"

definition down_glyph :: string where
  "down_glyph = [CHR 0xE2, CHR 0x86, CHR 0x93] @ '' ''"

definition AspectCard :: "jsval \<Rightarrow> error + vnode" where
  "AspectCard aspect =
     bind (field aspect ''trend'') (\<lambda>trend.
     bind (to_string trend) (\<lambda>trend_string.
     let trendClass = ''trend-'' @ trend_string in
     bind (field aspect ''name'') (\<lambda>name.
     bind (call_replace name ''_'' '' '') (\<lambda>title.
     bind (field aspect ''sentiment_label'') (\<lambda>sentiment_label.
     bind (field aspect ''sentiment'') (\<lambda>sentiment.
     bind (call_toFixed2 sentiment) (\<lambda>fixed.
     bind (field aspect ''variance_label'') (\<lambda>variance_label.
     bind (field aspect ''mention_count'') (\<lambda>mention_count.
       Inr (Tag ''div'' [(''className'', JStr ''aspect-card'')]
         [Tag ''h3'' [] [Expr (JStr title)],
          Tag ''div'' [(''className'', JStr ''aspect-row'')]
            [Tag ''span'' [] [Expr (JStr ''Sentiment'')],
             Tag ''span'' []
               [Expr sentiment_label, Expr (JStr '' (''), Expr (JStr fixed), Expr (JStr '')'')]],
          Tag ''div'' [(''className'', JStr ''aspect-row'')]
            [Tag ''span'' [] [Expr (JStr ''Trend'')],
             Tag ''span'' [(''className'', JStr trendClass)]
               [Expr (js_and (JBool (strict_eq trend (JStr ''improving''))) (JStr up_glyph)),
                Expr (js_and (JBool (strict_eq trend (JStr ''declining''))) (JStr down_glyph)),
                Expr trend]],
          Tag ''div'' [(''className'', JStr ''aspect-row'')]
            [Tag ''span'' [] [Expr (JStr ''Consistency'')],
             Tag ''span'' [] [Expr variance_label]],
          Tag ''div'' [(''className'', JStr ''aspect-row'')]
            [Tag ''span'' [] [Expr (JStr ''Mentions'')],
             Tag ''span'' [] [Expr mention_count]]]))))))))))"

text \<open>
  React calls a component, then puts the children of the element it returned into the
  document, and only then goes on to what follows in the tree. \<open>reconcile\<close> is that second
  step: it fails with React's error at the first child that is an object.
\<close>

definition reconcile :: "vnode \<Rightarrow> error + vnode" where
  "reconcile view = (case dom_text view of Inl e \<Rightarrow> Inl e | Inr t \<Rightarrow> Inr view)"

text \<open>
  The cards of the grid, rendered one after the other: each AspectCard is called and its
  output reconciled before the next one is called.
\<close>

fun render_cards :: "(jsval \<times> jsval) list \<Rightarrow> error + vnode list" where
  "render_cards [] = Inr []"
| "render_cards ((key, aspect) # rest) =
     (case bind (AspectCard aspect) reconcile of
        Inl e \<Rightarrow> Inl e
      | Inr view \<Rightarrow>
          (case render_cards rest of
             Inl e \<Rightarrow> Inl e
           | Inr views \<Rightarrow> Inr (Keyed key view # views)))"

text \<open>
  AspectsGrid itself only maps the aspects to AspectCard elements, reading the key
  \<^verbatim>\<open>aspect.name\<close> of each; the cards are rendered after it has returned.
\<close>

definition AspectsGrid :: "jsval \<Rightarrow> error + vnode" where
  "AspectsGrid aspects =
     bind (call_map aspects
             (\<lambda>aspect index. bind (field aspect ''name'') (\<lambda>key. Inr (key, aspect))))
       (\<lambda>elements.
     bind (render_cards elements)
       (\<lambda>cards. Inr (Tag ''div'' [(''className'', JStr ''aspects-grid'')] [Items cards])))"

section \<open>StatusCard (StatusCard.jsx)\<close>

text \<open>
  Lines 13 to 51. \<^verbatim>\<open>risk.toLowerCase()\<close> is called twice before the JSX is built;
  \<^verbatim>\<open>confidence * 100\<close> converts the confidence to a number.
\<close>

definition StatusCard :: "jsval \<Rightarrow> jsval \<Rightarrow> jsval \<Rightarrow> jsval \<Rightarrow> error + vnode" where
  "StatusCard risk riskScore confidence ratingTrust =
     bind (call_toLowerCase risk) (\<lambda>lower.
     let riskClass = ''risk-'' @ lower in
     bind (call_toLowerCase risk) (\<lambda>riskValueClass.
     bind (to_number confidence) (\<lambda>c.
       Inr (Tag ''div'' [(''className'', JStr (''status-card '' @ riskClass))]
         [Tag ''h2'' [] [Expr (JStr ''Overall Status'')],
          Tag ''div'' [(''className'', JStr ''status-metrics'')]
            [Tag ''div'' [(''className'', JStr ''metric'')]
               [Tag ''div'' [(''className'', JStr ''metric-label'')] [Expr (JStr ''Risk Level'')],
                Tag ''div'' [(''className'', JStr (''metric-value '' @ riskValueClass))]
                  [Expr risk]],
             Tag ''div'' [(''className'', JStr ''metric'')]
               [Tag ''div'' [(''className'', JStr ''metric-label'')] [Expr (JStr ''Risk Score'')],
                Tag ''div'' [(''className'', JStr ''metric-value'')]
                  [Expr riskScore, Expr (JStr ''/100'')]],
             Tag ''div'' [(''className'', JStr ''metric'')]
               [Tag ''div'' [(''className'', JStr ''metric-label'')] [Expr (JStr ''Confidence'')],
                Tag ''div'' [(''className'', JStr ''metric-value'')]
                  [Expr (JNum (math_round (num_mul c (Fin 100)))), Expr (JStr ''%'')]],
             Tag ''div'' [(''className'', JStr ''metric'')]
               [Tag ''div'' [(''className'', JStr ''metric-label'')]
                  [Expr (JStr ''Rating Trust'')],
                Tag ''div''
                  [(''className'',
                    JStr (''metric-value ''
                          @ (if strict_eq ratingTrust (JStr ''Reliable'') then ''low''
                             else ''high'')))]
                  [Expr ratingTrust]]]]))))"

section \<open>ListingInput (ListingInput.jsx)\<close>

text \<open>
  The listings are what \<^verbatim>\<open>GET /listings\<close> is specified to return, an array of identifier
  strings, and the selection is one of them or the empty string of the initial state.
\<close>

definition ListingInput :: "string list \<Rightarrow> string \<Rightarrow> vnode" where
  "ListingInput listings selected =
     Tag ''div'' [(''className'', JStr ''listing-input'')]
       [Tag ''label'' [(''htmlFor'', JStr ''listing-select'')] [Expr (JStr ''Select Listing'')],
        Tag ''select'' [(''id'', JStr ''listing-select''), (''value'', JStr selected)]
          [Items (map (\<lambda>listing. Tag ''option'' [(''key'', JStr listing), (''value'', JStr listing)]
                                    [Expr (JStr listing)])
                    listings)]]"

section \<open>App (App.jsx)\<close>

subsection \<open>State and network\<close>

text \<open>
  The five \<^verbatim>\<open>useState\<close> cells. \<open>assessment\<close> and \<open>error\<close> hold \<^verbatim>\<open>null\<close> or what a handler
  stored: the parsed body of the response, and the message of the error that was caught.
\<close>

record app_state =
  listings :: "string list"
  selectedListing :: string
  assessment :: jsval
  loading :: bool
  error :: jsval

definition initial :: app_state where
  "initial =
     \<lparr>listings = [], selectedListing = [], assessment = JNull, loading = False, error = JNull\<rparr>"

text \<open>\<^verbatim>\<open>import.meta.env.PROD\<close> is a parameter of the build.\<close>

definition API_BASE :: "bool \<Rightarrow> string" where
  "API_BASE production = (if production then ''/api'' else ''http://localhost:8000'')"

text \<open>
  How a \<^verbatim>\<open>fetch\<close> settles. \<open>Rejected m\<close>: the promise rejects with an error of message \<open>m\<close>
  (no response). \<open>Response ok body\<close>: a response arrived, \<open>ok\<close> is \<^verbatim>\<open>res.ok\<close> (a status in
  200-299), and \<^verbatim>\<open>res.json()\<close> either rejects with an error of message \<open>m\<close> (\<open>Inl m\<close>) or
  resolves with the parsed body (\<open>Inr data\<close>).
\<close>

datatype 'a settled = Rejected string | Response bool "string + 'a"

datatype request = Fetch string

subsection \<open>The two effects and their promise chains\<close>

text \<open>The first effect (dependencies \<^verbatim>\<open>[]\<close>) runs once after the first render.\<close>

definition listings_effect :: "bool \<Rightarrow> request list" where
  "listings_effect production = [Fetch (API_BASE production @ ''/listings'')]"

text \<open>
  Its chain \<^verbatim>\<open>.then(res => res.json()).then(data => ...).catch(...)\<close>: \<^verbatim>\<open>res.ok\<close> is not
  looked at.
\<close>

fun listings_settled :: "string list settled \<Rightarrow> app_state \<Rightarrow> app_state" where
  "listings_settled (Rejected m) s = s\<lparr>error := JStr ''Failed to load listings''\<rparr>"
| "listings_settled (Response ok (Inl m)) s = s\<lparr>error := JStr ''Failed to load listings''\<rparr>"
| "listings_settled (Response ok (Inr data)) s =
     (let s = s\<lparr>listings := data\<rparr>
      in if length data > 0 then s\<lparr>selectedListing := data ! 0\<rparr> else s)"

text \<open>
  The second effect (dependencies \<^verbatim>\<open>[selectedListing]\<close>): it returns at once on an empty
  selection, and otherwise sets the loading flag, clears the error and issues the fetch.
\<close>

definition assessment_effect :: "bool \<Rightarrow> app_state \<Rightarrow> app_state \<times> request list" where
  "assessment_effect production s =
     (if \<not> truthy (JStr (selectedListing s)) then (s, [])
      else (s\<lparr>loading := True, error := JNull\<rparr>,
            [Fetch (API_BASE production @ ''/listing/'' @ selectedListing s)]))"

fun assessment_settled :: "jsval settled \<Rightarrow> app_state \<Rightarrow> app_state" where
  "assessment_settled (Rejected m) s = s\<lparr>error := JStr m, loading := False\<rparr>"
| "assessment_settled (Response ok body) s =
     (if \<not> ok then s\<lparr>error := JStr ''Listing not found'', loading := False\<rparr>
      else (case body of
              Inl m \<Rightarrow> s\<lparr>error := JStr m, loading := False\<rparr>
            | Inr data \<Rightarrow> s\<lparr>assessment := data, loading := False\<rparr>))"

subsection \<open>Events\<close>

text \<open>
  After the first render both effects run, in the order of the source. After a later render
  the second effect runs again when \<^verbatim>\<open>selectedListing\<close> differs from its value at the render
  before (the first has no dependency and never runs again).
\<close>

definition mount :: "bool \<Rightarrow> app_state \<times> request list" where
  "mount production =
     (let (s, requests) = assessment_effect production initial
      in (s, listings_effect production @ requests))"

definition rerender :: "bool \<Rightarrow> app_state \<Rightarrow> app_state \<Rightarrow> app_state \<times> request list" where
  "rerender production before s =
     (if selectedListing s \<noteq> selectedListing before then assessment_effect production s else (s, []))"

definition on_listings :: "bool \<Rightarrow> string list settled \<Rightarrow> app_state \<Rightarrow> app_state \<times> request list" where
  "on_listings production r s = rerender production s (listings_settled r s)"

definition on_assessment :: "bool \<Rightarrow> jsval settled \<Rightarrow> app_state \<Rightarrow> app_state \<times> request list" where
  "on_assessment production r s = rerender production s (assessment_settled r s)"

definition on_change :: "bool \<Rightarrow> string \<Rightarrow> app_state \<Rightarrow> app_state \<times> request list" where
  "on_change production value s = rerender production s (s\<lparr>selectedListing := value\<rparr>)"

subsection \<open>Render\<close>

text \<open>
  \<^verbatim>\<open>new Date(v).toLocaleDateString()\<close>. The constructor first converts its argument to a
  primitive value: an array to its string, a plain object to \<^verbatim>\<open>[object Object]\<close>, or a
  \<^verbatim>\<open>TypeError\<close> when the object has an own property \<^verbatim>\<open>toString\<close> (a JSON value, not
  callable). The text that comes out of the primitive value (\<open>locale_date_string\<close>) depends on
  the locale of the browser and is not modelled.
\<close>

fun to_primitive :: "jsval \<Rightarrow> error + jsval" where
  "to_primitive (JArr xs) = bind (to_string (JArr xs)) (\<lambda>s. Inr (JStr s))"
| "to_primitive (JObj kvs) = bind (to_string (JObj kvs)) (\<lambda>s. Inr (JStr s))"
| "to_primitive (JNative f) = bind (to_string (JNative f)) (\<lambda>s. Inr (JStr s))"
| "to_primitive v = Inr v"

definition locale_date_string :: "jsval \<Rightarrow> string" where
  "locale_date_string = undefined"

definition date_string :: "jsval \<Rightarrow> error + string" where
  "date_string v = bind (to_primitive v) (\<lambda>p. Inr (locale_date_string p))"

text \<open>
  The fragment of the five assessment-dependent parts (lines 80 to 115). App reads the fields
  and formats the date while it builds the fragment, before any component of the fragment is
  called. React then renders the parts in the order of the source, each component called and
  its output reconciled before the next; the footer comes last. The first error ends the
  render: nothing in the tree catches.
\<close>

definition assessment_section :: "jsval \<Rightarrow> error + vnode" where
  "assessment_section a =
     bind (field a ''overall_risk'') (\<lambda>overall_risk.
     bind (field a ''risk_score'') (\<lambda>risk_score.
     bind (field a ''confidence'') (\<lambda>confidence.
     bind (field a ''rating_trust'') (\<lambda>rating_trust.
     bind (field a ''aspects'') (\<lambda>aspects.
     bind (field a ''risk_drivers'') (\<lambda>risk_drivers.
     bind (field a ''recommended_action'') (\<lambda>recommended_action.
     bind (field a ''review_count'') (\<lambda>review_count.
     bind (field a ''assessment_date'') (\<lambda>assessment_date.
     bind (date_string assessment_date) (\<lambda>date.
     bind (bind (StatusCard overall_risk risk_score confidence rating_trust) reconcile)
       (\<lambda>status.
     bind (AspectsGrid aspects) (\<lambda>grid.
     bind (bind (RiskDrivers risk_drivers) reconcile) (\<lambda>drivers.
     bind (bind (ActionBanner recommended_action) reconcile) (\<lambda>banner.
     bind (reconcile
             (Tag ''div'' [(''className'', JStr ''metadata'')]
                [Expr review_count,
                 Expr (JStr ('' reviews analyzed '' @ [CHR 0xE2, CHR 0x80, CHR 0xA2]
                             @ '' Assessment: '')),
                 Expr (JStr date)]))
       (\<lambda>footer. Inr (Items [status, grid, drivers, banner, footer]))))))))))))))))"

text \<open>The page around its last child; the title starts with U+1F3E0.\<close>

definition page :: "app_state \<Rightarrow> vnode \<Rightarrow> vnode" where
  "page s part =
     Tag ''div'' [(''className'', JStr ''app'')]
       [Tag ''h1'' []
          [Expr (JStr ([CHR 0xF0, CHR 0x9F, CHR 0x8F, CHR 0xA0]
                       @ '' Listing Intelligence Dashboard''))],
        ListingInput (listings s) (selectedListing s),
        (if loading s
         then Tag ''div'' [(''className'', JStr ''loading'')] [Expr (JStr ''Loading assessment...'')]
         else Expr (JBool False)),
        (if truthy (error s)
         then Tag ''div'' [(''className'', JStr ''error'')] [Expr (JStr ''Error: ''), Expr (error s)]
         else Expr (error s)),
        part]"

text \<open>\<^verbatim>\<open>assessment && !loading && (...)\<close>\<close>

definition section_condition :: "app_state \<Rightarrow> jsval" where
  "section_condition s = js_and (assessment s) (JBool (\<not> loading s))"

definition App :: "app_state \<Rightarrow> error + vnode" where
  "App s =
     (if truthy (section_condition s)
      then bind (assessment_section (assessment s)) (\<lambda>section. Inr (page s section))
      else Inr (page s (Expr (section_condition s))))"

section \<open>Reading a rendered tree\<close>

fun children :: "vnode \<Rightarrow> vnode list" where
  "children (Tag t props cs) = cs"
| "children (Items cs) = cs"
| "children (Keyed k n) = children n"
| "children (Expr v) = []"

fun attr :: "vnode \<Rightarrow> string \<Rightarrow> jsval" where
  "attr (Tag t props cs) a = (case map_of props a of Some v \<Rightarrow> v | None \<Rightarrow> JUndefined)"
| "attr (Keyed k n) a = attr n a"
| "attr n a = JUndefined"

definition child :: "vnode \<Rightarrow> nat \<Rightarrow> vnode" where
  "child n i = children n ! i"


text \<open>
  The places the properties below look at: in an aspect card the heading and the second span
  of the trend row; in the status card the value of the third and of the fourth metric; on the
  page the error region and the assessment-dependent section.
\<close>

definition title :: "vnode \<Rightarrow> vnode" where
  "title view = child view 0"

definition trend_span :: "vnode \<Rightarrow> vnode" where
  "trend_span view = child (child view 2) 1"


definition trust_value :: "vnode \<Rightarrow> vnode" where
  "trust_value view = child (child (child view 1) 3) 1"

definition error_region :: "vnode \<Rightarrow> vnode" where
  "error_region view = child view 3"

definition section_region :: "vnode \<Rightarrow> vnode" where
  "section_region view = child view 4"



section \<open>Vocabulary of the properties\<close>

text \<open>
  The number \<^verbatim>\<open>JSON.parse\<close> gives a decimal literal that denotes the rational \<open>q\<close>: the
  nearest double.
\<close>

definition json_number :: "rat \<Rightarrow> jsnum" where
  "json_number q = round_double q"

text \<open>
  When the chain of the assessment fetch fails, the message of the error its \<^verbatim>\<open>catch\<close>
  receives: the fetch rejected, the status was not a success, or the body was not JSON.
\<close>

fun assessment_failure :: "jsval settled \<Rightarrow> string option" where
  "assessment_failure (Rejected m) = Some m"
| "assessment_failure (Response ok body) =
     (if \<not> ok then Some ''Listing not found''
      else (case body of Inl m \<Rightarrow> Some m | Inr data \<Rightarrow> None))"









text \<open>An aspect with every field present, for a given trend.\<close>

definition trend_aspect :: "jsval \<Rightarrow> jsval" where
  "trend_aspect trend =
     JObj [(''name'', JStr ''cleanliness''), (''sentiment'', JNum (Fin (1 / 2))),
           (''sentiment_label'', JStr ''Positive''), (''trend'', trend),
           (''variance_label'', JStr ''Low variance''), (''mention_count'', JNum (Fin 3))]"

text \<open>The assessment of the scenario in section 8 of the specification, and a run that loads it.\<close>

definition scenario_aspect :: jsval where
  "scenario_aspect =
     JObj [(''name'', JStr ''wifi_speed''), (''sentiment'', JNum (json_number (- 42 / 100))),
           (''sentiment_label'', JStr ''Negative''), (''trend'', JStr ''declining''),
           (''variance_label'', JStr ''High variance''), (''mention_count'', JNum (Fin 14))]"

definition scenario_assessment :: jsval where
  "scenario_assessment =
     JObj [(''overall_risk'', JStr ''High''), (''risk_score'', JNum (Fin 72)),
           (''confidence'', JNum (Fin (1 / 2))), (''rating_trust'', JStr ''Unreliable''),
           (''aspects'', JArr [scenario_aspect]),
           (''risk_drivers'', JArr [JStr ''Noise complaints'']),
           (''recommended_action'', JStr ''flag''), (''review_count'', JNum (Fin 120)),
           (''assessment_date'', JStr ''2024-01-15'')]"

definition scenario_selected :: app_state where
  "scenario_selected =
     fst (on_listings False (Response True (Inr [''A'', ''B''])) (fst (mount False)))"

definition scenario_loaded :: app_state where
  "scenario_loaded =
     fst (on_assessment False (Response True (Inr scenario_assessment)) scenario_selected)"

section \<open>Helper facts\<close>


lemma bind_Inl: "bind m f = Inl e \<longleftrightarrow> m = Inl e \<or> (\<exists>x. m = Inr x \<and> f x = Inl e)"
  by (cases m) (simp_all add: bind_def)




section \<open>ActionBanner\<close>

lemma ActionBanner_flag:
  "ActionBanner (JStr ''flag'') =
     Inr (presentation ''action-flag''
            ([CHR 0xF0, CHR 0x9F, CHR 0x9A, CHR 0xA8]
             @ '' ACTION REQUIRED: Flag this listing for review''))"
  by (simp add: ActionBanner_def bind_def lookup_def actionConfig_def js_or_def presentation_def)

lemma ActionBanner_monitor:
  "ActionBanner (JStr ''monitor'') =
     Inr (presentation ''action-monitor''
            ([CHR 0xF0, CHR 0x9F, CHR 0x91, CHR 0x81, CHR 0xEF, CHR 0xB8, CHR 0x8F]
             @ '' Keep monitoring this listing''))"
  by (simp add: ActionBanner_def bind_def lookup_def actionConfig_def js_or_def presentation_def)

lemma ActionBanner_ignore:
  "ActionBanner (JStr ''ignore'') = Inr ignore_presentation"
  by (simp add: ActionBanner_def bind_def lookup_def actionConfig_def js_or_def presentation_def
      ignore_presentation_def)

text \<open>
  A string that is neither a key of the table nor a property name of \<^verbatim>\<open>Object.prototype\<close>
  gets the \<^verbatim>\<open>ignore\<close> presentation; so does a missing action.
\<close>

lemma ActionBanner_fallback:
  assumes "a \<notin> {''flag'', ''monitor'', ''ignore''}" and "a \<notin> set object_prototype"
  shows "ActionBanner (JStr a) = Inr ignore_presentation"
  using assms
  by (simp add: ActionBanner_def bind_def lookup_def actionConfig_def js_or_def presentation_def
      ignore_presentation_def)

lemma ActionBanner_missing:
  "ActionBanner JUndefined = Inr ignore_presentation"
  by (simp add: ActionBanner_def bind_def lookup_def actionConfig_def js_or_def presentation_def
      ignore_presentation_def object_prototype_def)

text \<open>
  C1. The claim: for every \<^verbatim>\<open>action\<close> that is not one of the three keys, ActionBanner renders
  the \<^verbatim>\<open>ignore\<close> presentation, and it never renders nothing. The code at the action
  \<^verbatim>\<open>"constructor"\<close>: \<^verbatim>\<open>actionConfig["constructor"]\<close> is the inherited \<^verbatim>\<open>Object\<close> function,
  which is truthy, so the \<^verbatim>\<open>||\<close> fallback is not taken; its \<^verbatim>\<open>className\<close> and \<^verbatim>\<open>text\<close> are
  \<^verbatim>\<open>undefined\<close>. The banner has the class \<^verbatim>\<open>action-banner undefined\<close> and no text: it is not
  the \<^verbatim>\<open>ignore\<close> presentation.
\<close>

theorem ActionBanner_inherited_key:
  "ActionBanner (JStr ''constructor'') =
     Inr (Tag ''div'' [(''className'', JStr ''action-banner undefined'')] [Expr JUndefined])
   \<and> ActionBanner (JStr ''constructor'') \<noteq> Inr ignore_presentation
   \<and> dom_text (Tag ''div'' [(''className'', JStr ''action-banner undefined'')] [Expr JUndefined])
       = Inr []"
  by (simp add: ActionBanner_def bind_def lookup_def actionConfig_def js_or_def presentation_def
      ignore_presentation_def object_prototype_def)

section \<open>AspectCard\<close>

text \<open>
  C2. For every aspect with a string name, a numeric sentiment and a trend that converts to
  a string, the aspect card renders, and the second span of its trend row holds three
  children: the upward glyph U+2191 with a space exactly when the trend is the string
  \<^verbatim>\<open>improving\<close> (otherwise \<^verbatim>\<open>false\<close>, which React does not show), the downward glyph U+2193
  with a space exactly when it is the string \<^verbatim>\<open>declining\<close>, and then the trend itself. The
  text in front of the trend is therefore the upward glyph, the downward glyph, or nothing
  for every other value (\<^verbatim>\<open>stable\<close> included).
\<close>

theorem AspectCard_trend_glyph:
  assumes "field aspect ''name'' = Inr (JStr name)"
    and "field aspect ''sentiment'' = Inr (JNum sentiment)"
    and "field aspect ''trend'' = Inr trend"
    and "to_string trend = Inr trend_string"
  shows "\<exists>view. AspectCard aspect = Inr view
     \<and> children (trend_span view) =
         [Expr (if trend = JStr ''improving''
                then JStr [CHR 0xE2, CHR 0x86, CHR 0x91, CHR '' ''] else JBool False),
          Expr (if trend = JStr ''declining''
                then JStr [CHR 0xE2, CHR 0x86, CHR 0x93, CHR '' ''] else JBool False),
          Expr trend]
     \<and> dom_texts (take 2 (children (trend_span view))) =
         Inr (if trend = JStr ''improving'' then [CHR 0xE2, CHR 0x86, CHR 0x91, CHR '' '']
              else if trend = JStr ''declining'' then [CHR 0xE2, CHR 0x86, CHR 0x93, CHR '' '']
              else [])"
proof -
  from assms(1) obtain kvs where aspect: "aspect = JObj kvs"
    by (cases aspect) (auto split: if_splits)
  obtain label variance mentions where rest:
    "field aspect ''sentiment_label'' = Inr label" "field aspect ''variance_label'' = Inr variance"
    "field aspect ''mention_count'' = Inr mentions"
    by (simp add: aspect)
  show ?thesis
    unfolding AspectCard_def
    by (simp add: assms rest bind_def trend_span_def child_def js_and_def strict_eq_def
        up_glyph_def down_glyph_def del: field.simps)
qed

theorem AspectCard_trend_glyph_witness:
  "(\<exists>view. AspectCard (trend_aspect (JStr ''improving'')) = Inr view
      \<and> dom_texts (take 2 (children (trend_span view))) = Inr [CHR 0xE2, CHR 0x86, CHR 0x91, CHR '' ''])
   \<and> (\<exists>view. AspectCard (trend_aspect (JStr ''declining'')) = Inr view
      \<and> dom_texts (take 2 (children (trend_span view))) = Inr [CHR 0xE2, CHR 0x86, CHR 0x93, CHR '' ''])
   \<and> (\<exists>view. AspectCard (trend_aspect (JStr ''stable'')) = Inr view
      \<and> children (trend_span view) = [Expr (JBool False), Expr (JBool False), Expr (JStr ''stable'')]
      \<and> dom_texts (take 2 (children (trend_span view))) = Inr [])"
proof -
  have fields: "field (trend_aspect t) ''name'' = Inr (JStr ''cleanliness'')"
    "field (trend_aspect t) ''sentiment'' = Inr (JNum (Fin (1 / 2)))"
    "field (trend_aspect t) ''trend'' = Inr t" for t
    by (simp_all add: trend_aspect_def)
  have strings: "to_string (JStr t) = Inr t" for t
    by simp
  from AspectCard_trend_glyph [OF fields strings, of "''improving''"]
    AspectCard_trend_glyph [OF fields strings, of "''declining''"]
    AspectCard_trend_glyph [OF fields strings, of "''stable''"]
  show ?thesis
    by simp blast
qed





section \<open>StatusCard\<close>

text \<open>
  C3. For every risk label and rating trust that are strings (and a numeric confidence) the
  status card renders, and the value of its rating trust metric has the class \<^verbatim>\<open>low\<close>
  exactly when the rating trust is \<^verbatim>\<open>Reliable\<close> and the class \<^verbatim>\<open>high\<close> for every other
  string; it shows the string itself.
\<close>

theorem StatusCard_rating_trust:
  "\<exists>view. StatusCard (JStr risk) riskScore (JNum confidence) (JStr ratingTrust) = Inr view
     \<and> attr (trust_value view) ''className'' =
         JStr (if ratingTrust = ''Reliable'' then ''metric-value low'' else ''metric-value high'')
     \<and> children (trust_value view) = [Expr (JStr ratingTrust)]"
  by (simp add: StatusCard_def bind_def trust_value_def child_def strict_eq_def)

theorem StatusCard_rating_trust_witness:
  "(\<exists>view. StatusCard (JStr ''Low'') (JNum (Fin 12)) (JNum (Fin (1 / 2))) (JStr ''Reliable'')
             = Inr view
      \<and> attr (trust_value view) ''className'' = JStr ''metric-value low'')
   \<and> (\<exists>view. StatusCard (JStr ''High'') (JNum (Fin 72)) (JNum (Fin (1 / 2))) (JStr ''Unreliable'')
             = Inr view
      \<and> attr (trust_value view) ''className'' = JStr ''metric-value high'')"
  using StatusCard_rating_trust [of "''Low''" "JNum (Fin 12)" "Fin (1 / 2)" "''Reliable''"]
    StatusCard_rating_trust [of "''High''" "JNum (Fin 72)" "Fin (1 / 2)" "''Unreliable''"]
  by simp blast

subsection \<open>The percentage\<close>



















section \<open>RiskDrivers\<close>








section \<open>Assessments with missing fields\<close>

subsection \<open>The components render when their inputs have the right shape\<close>











text \<open>
  What a missing field looks like where it is only displayed: without a score, a confidence
  and a rating trust the status card shows \<^verbatim>\<open>/100\<close>, \<^verbatim>\<open>NaN%\<close> and nothing.
\<close>

lemma StatusCard_blank_metrics:
  "\<exists>view. StatusCard (JStr ''High'') JUndefined JUndefined JUndefined = Inr view
     \<and> dom_text (child (child view 1) 1) = Inr ''Risk Score/100''
     \<and> dom_text (child (child view 1) 2) = Inr ''ConfidenceNaN%''
     \<and> dom_text (child (child view 1) 3) = Inr ''Rating Trust''"
  by (simp add: StatusCard_def bind_def child_def)




section \<open>App\<close>

lemma mount_initial:
  "mount production = (initial, [Fetch (API_BASE production @ ''/listings'')])"
  by (simp add: mount_def assessment_effect_def initial_def listings_effect_def)

lemma scenario_selected_state:
  "scenario_selected =
     \<lparr>listings = [''A'', ''B''], selectedListing = ''A'', assessment = JNull, loading = True,
      error = JNull\<rparr>"
  by (simp add: scenario_selected_def mount_initial on_listings_def rerender_def
      assessment_effect_def initial_def)

lemma scenario_loaded_state:
  "scenario_loaded =
     \<lparr>listings = [''A'', ''B''], selectedListing = ''A'', assessment = scenario_assessment,
      loading = False, error = JNull\<rparr>"
  by (simp add: scenario_loaded_def scenario_selected_state on_assessment_def rerender_def)

text \<open>
  C8. When the assessment fetch gets a response whose status is not a success, whatever its
  body, the handler stores the message \<^verbatim>\<open>Listing not found\<close>, clears the loading flag, changes
  nothing else and issues no request. If no assessment is stored, the page then renders, its
  error region shows \<^verbatim>\<open>Error: Listing not found\<close>, and in the place of the
  assessment-dependent section stands \<^verbatim>\<open>null\<close>, which shows nothing.
\<close>

theorem assessment_not_found:
  "on_assessment production (Response False body) s =
     (s\<lparr>error := JStr ''Listing not found'', loading := False\<rparr>, [])
   \<and> (assessment s = JNull \<longrightarrow>
        (\<exists>view. App (fst (on_assessment production (Response False body) s)) = Inr view
           \<and> error_region view =
               Tag ''div'' [(''className'', JStr ''error'')]
                 [Expr (JStr ''Error: ''), Expr (JStr ''Listing not found'')]
           \<and> dom_text (error_region view) = Inr ''Error: Listing not found''
           \<and> section_region view = Expr JNull
           \<and> dom_text (section_region view) = Inr []))"
  by (simp add: on_assessment_def rerender_def App_def section_condition_def js_and_def page_def
      error_region_def section_region_def child_def)

theorem assessment_not_found_witness:
  "\<exists>view. App (fst (on_assessment False (Response False (Inl ''Unexpected token''))
                     scenario_selected)) = Inr view
      \<and> dom_text (error_region view) = Inr ''Error: Listing not found''
      \<and> section_region view = Expr JNull"
proof -
  have "assessment scenario_selected = JNull"
    by (simp add: scenario_selected_state)
  with assessment_not_found [of False "Inl ''Unexpected token''" scenario_selected]
  show ?thesis
    by blast
qed

text \<open>
  What the listings chain does after a mount. A body that is a JSON array is stored, and its
  first element, if there is one, becomes the selection; the second effect then fetches its
  assessment unless it is the empty string, where the effect returns at its guard. A rejected
  fetch and a body that is not JSON store the fixed message and leave the listings empty.
\<close>

lemma listings_empty_identifier:
  "on_listings False (Response True (Inr [''''])) (fst (mount False))
     = (initial\<lparr>listings := ['''']\<rparr>, [])"
  by (simp add: mount_initial on_listings_def rerender_def assessment_effect_def initial_def)

lemma mount_listings:
  "mount production = (initial, [Fetch (API_BASE production @ ''/listings'')])
   \<and> (data \<noteq> [] \<and> hd data \<noteq> [] \<longrightarrow>
        on_listings production (Response True (Inr data)) (fst (mount production)) =
          (initial\<lparr>listings := data, selectedListing := hd data, loading := True\<rparr>,
           [Fetch (API_BASE production @ ''/listing/'' @ hd data)]))
   \<and> (data \<noteq> [] \<and> hd data = [] \<longrightarrow>
        on_listings production (Response True (Inr data)) (fst (mount production)) =
          (initial\<lparr>listings := data, selectedListing := hd data\<rparr>, []))
   \<and> on_listings production (Response True (Inr [])) (fst (mount production)) = (initial, [])
   \<and> on_listings production (Rejected m) (fst (mount production)) =
        (initial\<lparr>error := JStr ''Failed to load listings''\<rparr>, [])
   \<and> on_listings production (Response ok (Inl m)) (fst (mount production)) =
        (initial\<lparr>error := JStr ''Failed to load listings''\<rparr>, [])"
  by (cases data)
     (auto simp: mount_initial on_listings_def rerender_def assessment_effect_def initial_def)

text \<open>
  C9. The claim: when the listings fetch fails, App stores the message
  \<^verbatim>\<open>Failed to load listings\<close> and the listings remain empty. The code at a response whose
  status is not a success (\<^verbatim>\<open>res.ok\<close> false) and whose body is the JSON array \<^verbatim>\<open>["A"]\<close>: the
  listings chain never reads \<^verbatim>\<open>res.ok\<close>, so the body is stored as the listings, its first
  element is selected, an assessment fetch is issued and no message is stored. The chain of
  the assessment fetch does read \<^verbatim>\<open>res.ok\<close>: at the same kind of response it stores its
  message.
\<close>

theorem listings_status_ignored:
  "on_listings False (Response False (Inr [''A''])) (fst (mount False)) =
     (initial\<lparr>listings := [''A''], selectedListing := ''A'', loading := True\<rparr>,
      [Fetch ''http://localhost:8000/listing/A''])
   \<and> error (fst (on_listings False (Response False (Inr [''A''])) (fst (mount False)))) = JNull
   \<and> listings (fst (on_listings False (Response False (Inr [''A''])) (fst (mount False))))
       = [''A'']
   \<and> error (fst (on_assessment False (Response False (Inr (JArr [JStr ''A'']))) initial))
       = JStr ''Listing not found''"
  by (simp add: mount_initial on_listings_def on_assessment_def rerender_def
      assessment_effect_def initial_def API_BASE_def)

text \<open>
  C10. When the assessment fetch fails (it is rejected, the status is not a success, or the
  body is not JSON), the handler stores the message of the error and clears the loading flag;
  the stored assessment and everything else stay as they were, and no request is issued. An
  assessment object that was stored before is still there, the condition of the
  assessment-dependent section holds again, and the page renders that section from it.
\<close>

theorem assessment_failure_keeps_assessment:
  assumes "assessment_failure r = Some m"
  shows "on_assessment production r s = (s\<lparr>error := JStr m, loading := False\<rparr>, [])
     \<and> assessment (fst (on_assessment production r s)) = assessment s
     \<and> (\<forall>kvs. assessment s = JObj kvs \<longrightarrow>
          truthy (section_condition (fst (on_assessment production r s)))
          \<and> App (fst (on_assessment production r s)) =
              bind (assessment_section (JObj kvs))
                (\<lambda>section. Inr (page (fst (on_assessment production r s)) section)))"
  using assms
  by (cases r) (auto simp: on_assessment_def rerender_def App_def section_condition_def js_and_def
      split: if_splits sum.splits)

theorem assessment_failure_keeps_assessment_witness:
  "on_assessment False (Rejected ''Failed to fetch'') (scenario_loaded\<lparr>loading := True\<rparr>) =
     (scenario_loaded\<lparr>error := JStr ''Failed to fetch''\<rparr>, [])
   \<and> assessment (fst (on_assessment False (Rejected ''Failed to fetch'')
                        (scenario_loaded\<lparr>loading := True\<rparr>))) = scenario_assessment
   \<and> truthy (section_condition (fst (on_assessment False (Rejected ''Failed to fetch'')
                                       (scenario_loaded\<lparr>loading := True\<rparr>))))"
proof -
  have failure: "assessment_failure (Rejected ''Failed to fetch'') = Some ''Failed to fetch''"
    by simp
  have stored: "\<exists>kvs. assessment (scenario_loaded\<lparr>loading := True\<rparr>) = JObj kvs"
    by (simp add: scenario_loaded_state scenario_assessment_def)
  from assessment_failure_keeps_assessment
    [OF failure, of False "scenario_loaded\<lparr>loading := True\<rparr>"] stored
  show ?thesis
    by (auto simp: scenario_loaded_state)
qed

end
